theory Spec2Isabelle
  imports Complex_Main
begin

section \<open>The P2P escrow routes of finly-backend\<close>

text \<open>
  The development embeds \<^verbatim>\<open>src/routes/p2p.ts\<close> together with the Mongoose schemas
  it writes through (\<^verbatim>\<open>src/models/P2PTrade.ts\<close>, \<^verbatim>\<open>src/models/P2POffer.ts\<close> and the
  wallet and deposit schemas). A collection is a list of documents in natural order, a
  document found by a query is addressed by its position, and every handler is a function
  from the database to a response and the database it leaves behind, so that a handler
  that throws after a write keeps that write, as the \<^verbatim>\<open>catch\<close> block of the source does.

  JavaScript numbers are modelled as exact rationals: rounding of doubles is outside the
  model. Notifications, \<^verbatim>\<open>populate\<close> and key generation write no wallet, offer or trade
  and are left out; they are taken to succeed.
\<close>

subsection \<open>Documents\<close>

type_synonym objectId = nat

record wallet =
  w_id :: objectId
  w_userId :: objectId
  w_cryptocurrency :: string
  w_network :: string
  w_label :: "string option"
  w_isDefault :: bool
  w_balance :: rat
  w_lockedBalance :: rat
  w_totalDeposits :: rat
  w_totalWithdrawals :: rat
  w_isActive :: bool

datatype offer_type = Buy | Sell

record offer =
  o_id :: objectId
  o_userId :: objectId
  o_type :: offer_type
  o_cryptocurrency :: string
  o_fiatCurrency :: string
  o_amount :: rat
  o_price :: rat
  o_minLimit :: rat
  o_maxLimit :: rat
  o_paymentMethods :: "string list"
  o_status :: string
  o_completedAt :: "nat option"
  o_expiresAt :: nat
  o_createdAt :: nat

text \<open>
  The fields of the interface \<^verbatim>\<open>IP2PTrade\<close>. An optional field, and a field that a
  document does not carry, reads \<^verbatim>\<open>undefined\<close>: \<open>None\<close>.
\<close>

record trade =
  t_id :: objectId
  t_offerId :: objectId
  t_buyerId :: objectId
  t_sellerId :: objectId
  t_cryptocurrency :: string
  t_fiatCurrency :: string
  t_amount :: rat
  t_price :: rat
  t_totalFiat :: rat
  t_paymentMethod :: string
  t_status :: string
  t_escrowAmount :: rat
  t_escrowHeld :: "bool option"
  t_paymentProof :: "string option"
  t_payoutMethod :: "string option"
  t_payoutDetails :: "string option"
  t_notes :: "string option"
  t_completedAt :: "nat option"
  t_cancelledAt :: "nat option"

record deposit =
  dp_id :: objectId
  dp_userId :: objectId
  dp_walletId :: objectId
  dp_amount :: rat
  dp_txHash :: "string option"
  dp_status :: string

text \<open>
  The four collections, and the ids of the wallets that were deleted: an ObjectId is
  never handed out twice.
\<close>

record db =
  wallets :: "wallet list"
  offers :: "offer list"
  trades :: "trade list"
  deposits :: "deposit list"
  retired :: "objectId list"

datatype error =
    OfferNotFound | OfferNotActive | OwnOffer | OutsideLimits | PaymentMethodNotSupported
  | InsufficientBalance | SellerInsufficientBalance
  | TradeNotFound | NotAuthorized | InvalidStatus
  | MissingFields | LimitsOrder | AmountNotWithinLimits | UnsupportedCryptocurrency
  | WalletExists | WalletNotFound | WalletHasBalance | DepositExists
  | ServerError

fun http_status :: "error \<Rightarrow> nat" where
  "http_status OfferNotFound = 404"
| "http_status TradeNotFound = 404"
| "http_status WalletNotFound = 404"
| "http_status NotAuthorized = 403"
| "http_status ServerError = 500"
| "http_status _ = 400"

datatype 'a response = Success 'a | Failure error

subsection \<open>Queries and saves\<close>

text \<open>\<^verbatim>\<open>findOne\<close>: the position of the first document that matches.\<close>

fun findOne :: "('a \<Rightarrow> bool) \<Rightarrow> 'a list \<Rightarrow> nat option" where
  "findOne P [] = None"
| "findOne P (x # xs) = (if P x then Some 0 else map_option Suc (findOne P xs))"

text \<open>
  What \<^verbatim>\<open>walletSchema\<close> asks of a document: \<^verbatim>\<open>min: 0\<close> on the four numbers, a
  label of at most 50 characters when there is one, and the required currency and
  network.
\<close>

definition walletSchema_valid :: "wallet \<Rightarrow> bool" where
  "walletSchema_valid w \<longleftrightarrow>
     0 \<le> w_balance w \<and> 0 \<le> w_lockedBalance w
     \<and> 0 \<le> w_totalDeposits w \<and> 0 \<le> w_totalWithdrawals w
     \<and> (case w_label w of None \<Rightarrow> True | Some l \<Rightarrow> length l \<le> 50)
     \<and> w_cryptocurrency w \<noteq> [] \<and> w_network w \<noteq> []"

text \<open>
  The pre-save hook of \<^verbatim>\<open>walletSchema\<close>: a default wallet clears \<^verbatim>\<open>isDefault\<close> on
  the other wallets of its user and currency.
\<close>

definition walletSchema_pre_save :: "wallet \<Rightarrow> wallet list \<Rightarrow> wallet list" where
  "walletSchema_pre_save w ws =
     (if w_isDefault w
      then map (\<lambda>v. if w_userId v = w_userId w \<and> w_cryptocurrency v = w_cryptocurrency w
                       \<and> w_id v \<noteq> w_id w
                     then v\<lparr>w_isDefault := False\<rparr> else v) ws
      else ws)"

text \<open>
  \<^verbatim>\<open>wallet.save()\<close>: the document is validated, then the hook runs, then the document
  is written. A failed validation throws (\<open>None\<close>) and writes nothing.
\<close>

definition Wallet_save :: "wallet list \<Rightarrow> nat \<Rightarrow> wallet \<Rightarrow> wallet list option" where
  "Wallet_save ws i w =
     (if walletSchema_valid w then Some ((walletSchema_pre_save w ws)[i := w]) else None)"

text \<open>
  \<^verbatim>\<open>p2pTradeSchema\<close> declares no path \<^verbatim>\<open>escrowHeld\<close>, \<^verbatim>\<open>payoutMethod\<close> or
  \<^verbatim>\<open>payoutDetails\<close>: the three exist in the interface only. A Mongoose schema is strict
  unless it says otherwise, so a document built or read through the model carries the
  declared paths only.
\<close>

definition p2pTradeSchema_paths :: "trade \<Rightarrow> trade" where
  "p2pTradeSchema_paths t =
     t\<lparr>t_escrowHeld := None, t_payoutMethod := None, t_payoutDetails := None\<rparr>"

text \<open>
  \<^verbatim>\<open>P2PTrade.create\<close>: the document is cast to the schema and validated (the numbers
  carry \<^verbatim>\<open>min: 0\<close>, the required strings must not be empty); the status defaults to
  \<^verbatim>\<open>pending\<close>.
\<close>

definition P2PTrade_create :: "trade \<Rightarrow> trade option" where
  "P2PTrade_create t =
     (if 0 \<le> t_amount t \<and> 0 \<le> t_price t \<and> 0 \<le> t_totalFiat t \<and> 0 \<le> t_escrowAmount t
         \<and> t_paymentMethod t \<noteq> [] \<and> t_cryptocurrency t \<noteq> [] \<and> t_fiatCurrency t \<noteq> []
      then Some (p2pTradeSchema_paths t) else None)"

definition offerStatuses :: "string list" where
  "offerStatuses = [''active'', ''completed'', ''cancelled'', ''expired'']"

text \<open>
  What \<^verbatim>\<open>p2pOfferSchema\<close> asks of a document: \<^verbatim>\<open>min: 0\<close> on the four numbers, a
  status of the enum, the required currencies and no empty payment method. The type
  is of its enum by construction.
\<close>

definition p2pOfferSchema_valid :: "offer \<Rightarrow> bool" where
  "p2pOfferSchema_valid x \<longleftrightarrow>
     0 \<le> o_amount x \<and> 0 \<le> o_price x \<and> 0 \<le> o_minLimit x \<and> 0 \<le> o_maxLimit x
     \<and> o_status x \<in> set offerStatuses
     \<and> o_cryptocurrency x \<noteq> [] \<and> o_fiatCurrency x \<noteq> []
     \<and> [] \<notin> set (o_paymentMethods x)"

text \<open>
  \<^verbatim>\<open>offer.save()\<close>: the document is validated, and the pre-save hook refuses
  \<^verbatim>\<open>maxLimit < minLimit\<close>.
\<close>

definition P2POffer_save :: "offer list \<Rightarrow> nat \<Rightarrow> offer \<Rightarrow> offer list option" where
  "P2POffer_save os k x =
     (if p2pOfferSchema_valid x \<and> \<not> o_maxLimit x < o_minLimit x then Some (os[k := x])
      else None)"

text \<open>
  A new ObjectId differs from every id in use and from every id used before. Offers,
  trades and deposits are never deleted, so an id above all ids of the collection is
  new; for a wallet the ids of the deleted wallets count as well.
\<close>

definition fresh_id :: "objectId list \<Rightarrow> objectId" where
  "fresh_id ids = Suc (fold max ids 0)"

subsection \<open>POST /offers/:id/accept\<close>

text \<open>The wallet asked for at lines 237 and 256: owner, currency, enough balance, active.\<close>

definition funded :: "objectId \<Rightarrow> string \<Rightarrow> rat \<Rightarrow> wallet \<Rightarrow> bool" where
  "funded uid c x w \<longleftrightarrow>
     w_userId w = uid \<and> w_cryptocurrency w = c \<and> x \<le> w_balance w \<and> w_isActive w"

text \<open>Lines 251-252 and 268-269: lock the crypto in escrow.\<close>

definition lock :: "rat \<Rightarrow> wallet \<Rightarrow> wallet" where
  "lock x w = w\<lparr>w_lockedBalance := w_lockedBalance w + x, w_balance := w_balance w - x\<rparr>"

text \<open>The user whose wallet is locked: the caller on a sell offer, the owner on a buy offer.\<close>

definition escrow_holder :: "offer \<Rightarrow> objectId \<Rightarrow> objectId" where
  "escrow_holder x user = (if o_type x = Sell then user else o_userId x)"

definition insufficient :: "offer \<Rightarrow> error" where
  "insufficient x = (if o_type x = Sell then InsufficientBalance else SellerInsufficientBalance)"

definition new_trade :: "db \<Rightarrow> offer \<Rightarrow> objectId \<Rightarrow> rat \<Rightarrow> rat \<Rightarrow> string \<Rightarrow> trade" where
  "new_trade d x user tradeAmount totalFiat paymentMethod =
     \<lparr>t_id = fresh_id (map t_id (trades d)),
      t_offerId = o_id x,
      t_buyerId = (if o_type x = Sell then user else o_userId x),
      t_sellerId = (if o_type x = Sell then o_userId x else user),
      t_cryptocurrency = o_cryptocurrency x,
      t_fiatCurrency = o_fiatCurrency x,
      t_amount = tradeAmount,
      t_price = o_price x,
      t_totalFiat = totalFiat,
      t_paymentMethod = paymentMethod,
      t_status = ''pending'',
      t_escrowAmount = tradeAmount,
      t_escrowHeld = Some True,
      t_paymentProof = None, t_payoutMethod = None, t_payoutDetails = None,
      t_notes = None, t_completedAt = None, t_cancelledAt = None\<rparr>"

text \<open>Lines 288-293: update the offer amount or mark it as completed.\<close>

definition consume :: "nat \<Rightarrow> rat \<Rightarrow> offer \<Rightarrow> offer" where
  "consume now tradeAmount x =
     (if o_amount x \<le> tradeAmount
      then x\<lparr>o_status := ''completed'', o_completedAt := Some now\<rparr>
      else x\<lparr>o_amount := o_amount x - tradeAmount\<rparr>)"

text \<open>
  The writes of lines 250-294 once the trade amount is a number: lock, create the trade,
  consume the offer. A write that throws ends the handler with status 500 and keeps the
  writes before it.
\<close>

definition accept_writes ::
  "db \<Rightarrow> nat \<Rightarrow> objectId \<Rightarrow> nat \<Rightarrow> rat \<Rightarrow> rat \<Rightarrow> string \<Rightarrow> trade response \<times> db" where
  "accept_writes d now user k tradeAmount totalFiat paymentMethod =
     (let x = offers d ! k in
      case findOne (funded (escrow_holder x user) (o_cryptocurrency x) tradeAmount) (wallets d) of
        None \<Rightarrow> (Failure (insufficient x), d)
      | Some i \<Rightarrow>
         (case Wallet_save (wallets d) i (lock tradeAmount (wallets d ! i)) of
            None \<Rightarrow> (Failure ServerError, d)
          | Some ws \<Rightarrow>
             (let d1 = d\<lparr>wallets := ws\<rparr> in
              case P2PTrade_create (new_trade d x user tradeAmount totalFiat paymentMethod) of
                None \<Rightarrow> (Failure ServerError, d1)
              | Some t \<Rightarrow>
                 (let d2 = d1\<lparr>trades := trades d1 @ [t]\<rparr> in
                  case P2POffer_save (offers d2) k (consume now tradeAmount x) of
                    None \<Rightarrow> (Failure ServerError, d2)
                  | Some os \<Rightarrow> (Success t, d2\<lparr>offers := os\<rparr>)))))"

text \<open>
  A price of zero makes \<^verbatim>\<open>amount / offer.price\<close> infinite or \<^verbatim>\<open>NaN\<close>: no balance
  reaches \<^verbatim>\<open>Infinity\<close>, \<^verbatim>\<open>NaN\<close> cannot be cast into the query, and a wallet locked by
  \<^verbatim>\<open>-Infinity\<close> fails its validation. Nothing is written in any of the three cases.
\<close>

definition accept_zero_price :: "db \<Rightarrow> objectId \<Rightarrow> offer \<Rightarrow> rat \<Rightarrow> error" where
  "accept_zero_price d user x amount =
     (if 0 < amount then insufficient x
      else if amount = 0 then ServerError
      else (case findOne (\<lambda>w. w_userId w = escrow_holder x user
                  \<and> w_cryptocurrency w = o_cryptocurrency x \<and> w_isActive w) (wallets d) of
              None \<Rightarrow> insufficient x
            | Some i \<Rightarrow> ServerError))"

definition acceptOffer ::
  "db \<Rightarrow> nat \<Rightarrow> objectId \<Rightarrow> objectId \<Rightarrow> rat \<Rightarrow> string \<Rightarrow> trade response \<times> db" where
  "acceptOffer d now user oid amount paymentMethod =
     (case findOne (\<lambda>x. o_id x = oid) (offers d) of
        None \<Rightarrow> (Failure OfferNotFound, d)
      | Some k \<Rightarrow>
         (let x = offers d ! k in
          if o_status x \<noteq> ''active'' then (Failure OfferNotActive, d)
          else if o_userId x = user then (Failure OwnOffer, d)
          else if amount < o_minLimit x \<or> amount > o_maxLimit x then (Failure OutsideLimits, d)
          else if paymentMethod \<notin> set (o_paymentMethods x)
            then (Failure PaymentMethodNotSupported, d)
          else if o_price x = 0 then (Failure (accept_zero_price d user x amount), d)
          else accept_writes d now user k (amount / o_price x) amount paymentMethod))"

subsection \<open>PATCH /trades/:id/status\<close>

record body =
  b_status :: string
  b_paymentProof :: "string option"
  b_notes :: "string option"
  b_payoutMethod :: "string option"
  b_payoutDetails :: "string option"

record updateData =
  u_status :: string
  u_paymentProof :: "string option"
  u_notes :: "string option"
  u_payoutMethod :: "string option"
  u_payoutDetails :: "string option"
  u_completedAt :: "nat option"
  u_cancelledAt :: "nat option"
  u_escrowHeld :: "bool option"

definition validStatuses :: "string list" where
  "validStatuses = [''pending'', ''payment_sent'', ''payment_received'', ''crypto_released'',
     ''completed'', ''cancelled'', ''disputed'']"

text \<open>\<^verbatim>\<open>if (notes) updateData.notes = notes\<close>: an absent or empty string sets nothing.\<close>

definition truthy :: "string option \<Rightarrow> string option" where
  "truthy s = (if s = Some [] then None else s)"

text \<open>
  Lines 435-443: credit the buyer's wallet, when there is one. \<open>None\<close>: the save threw.
\<close>

definition release_to_buyer :: "wallet list \<Rightarrow> trade \<Rightarrow> wallet list option" where
  "release_to_buyer ws t =
     (case findOne (\<lambda>w. w_userId w = t_buyerId t \<and> w_cryptocurrency w = t_cryptocurrency t) ws of
        None \<Rightarrow> Some ws
      | Some i \<Rightarrow> Wallet_save ws i ((ws ! i)\<lparr>w_balance := w_balance (ws ! i) + t_amount t\<rparr>))"

text \<open>Lines 459-468: return the escrowed funds to the seller's wallet, when there is one.\<close>

definition return_to_seller :: "wallet list \<Rightarrow> trade \<Rightarrow> wallet list option" where
  "return_to_seller ws t =
     (case findOne (\<lambda>w. w_userId w = t_sellerId t \<and> w_cryptocurrency w = t_cryptocurrency t) ws of
        None \<Rightarrow> Some ws
      | Some i \<Rightarrow> Wallet_save ws i
          ((ws ! i)\<lparr>w_balance := w_balance (ws ! i) + t_amount t,
                    w_lockedBalance := w_lockedBalance (ws ! i) - t_amount t\<rparr>))"

text \<open>
  Lines 412-472, on the trade document the handler holds: the checks, the update it
  builds and the wallets it leaves.
\<close>

definition updateTradeStatus_doc ::
  "wallet list \<Rightarrow> trade \<Rightarrow> nat \<Rightarrow> objectId \<Rightarrow> body \<Rightarrow> (error + updateData) \<times> wallet list" where
  "updateTradeStatus_doc ws t now user b =
     (if t_buyerId t \<noteq> user \<and> t_sellerId t \<noteq> user then (Inl NotAuthorized, ws)
      else if b_status b \<notin> set validStatuses then (Inl InvalidStatus, ws)
      else
        (let u = \<lparr>u_status = b_status b,
                  u_paymentProof = truthy (b_paymentProof b),
                  u_notes = truthy (b_notes b),
                  u_payoutMethod = truthy (b_payoutMethod b),
                  u_payoutDetails = truthy (b_payoutDetails b),
                  u_completedAt = None, u_cancelledAt = None, u_escrowHeld = None\<rparr> in
         if b_status b = ''completed'' then
           (if t_escrowHeld t = Some True then
              (case release_to_buyer ws t of
                 None \<Rightarrow> (Inl ServerError, ws)
               | Some ws' \<Rightarrow>
                  (Inr (u\<lparr>u_completedAt := Some now, u_escrowHeld := Some False\<rparr>), ws'))
            else (Inr (u\<lparr>u_completedAt := Some now\<rparr>), ws))
         else if b_status b = ''cancelled'' then
           (if t_escrowHeld t = Some True then
              (case return_to_seller ws t of
                 None \<Rightarrow> (Inl ServerError, ws)
               | Some ws' \<Rightarrow>
                  (Inr (u\<lparr>u_cancelledAt := Some now, u_escrowHeld := Some False\<rparr>), ws'))
            else (Inr (u\<lparr>u_cancelledAt := Some now\<rparr>), ws))
         else (Inr u, ws)))"

text \<open>
  \<^verbatim>\<open>findByIdAndUpdate\<close> sets the paths of the update that the schema declares; update
  validators are off.
\<close>

definition or_else :: "'a option \<Rightarrow> 'a option \<Rightarrow> 'a option" where
  "or_else new old = (case new of None \<Rightarrow> old | Some v \<Rightarrow> Some v)"

definition P2PTrade_update :: "trade \<Rightarrow> updateData \<Rightarrow> trade" where
  "P2PTrade_update t u =
     p2pTradeSchema_paths
       (t\<lparr>t_status := u_status u,
          t_paymentProof := or_else (u_paymentProof u) (t_paymentProof t),
          t_notes := or_else (u_notes u) (t_notes t),
          t_completedAt := or_else (u_completedAt u) (t_completedAt t),
          t_cancelledAt := or_else (u_cancelledAt u) (t_cancelledAt t)\<rparr>)"

definition updateTradeStatus ::
  "db \<Rightarrow> nat \<Rightarrow> objectId \<Rightarrow> objectId \<Rightarrow> body \<Rightarrow> trade response \<times> db" where
  "updateTradeStatus d now user tid b =
     (case findOne (\<lambda>t. t_id t = tid) (trades d) of
        None \<Rightarrow> (Failure TradeNotFound, d)
      | Some k \<Rightarrow>
         (case updateTradeStatus_doc (wallets d) (p2pTradeSchema_paths (trades d ! k)) now user b of
            (Inl e, ws) \<Rightarrow> (Failure e, d)
          | (Inr u, ws) \<Rightarrow>
             (let t' = P2PTrade_update (trades d ! k) u in
              (Success t', d\<lparr>wallets := ws, trades := (trades d)[k := t']\<rparr>))))"

subsection \<open>Offers: POST /offers, PATCH /offers/:id/status, GET /offers\<close>

text \<open>\<^verbatim>\<open>toUpperCase\<close> on ASCII letters: bit 5 of a lower-case letter is cleared.\<close>

definition toUpperCase :: "string \<Rightarrow> string" where
  "toUpperCase s =
     map (\<lambda>c. if 97 \<le> (of_char c :: nat) \<and> (of_char c :: nat) \<le> 122
              then (case c of Char b0 b1 b2 b3 b4 b5 b6 b7 \<Rightarrow> Char b0 b1 b2 b3 b4 False b6 b7)
              else c) s"

definition supportedCryptos :: "string list" where
  "supportedCryptos = [''BTC'', ''ETH'', ''USDT'', ''BNB'', ''ADA'', ''XRP'', ''SOL'', ''DOT'',
     ''DOGE'', ''AVAX'']"

text \<open>
  The request body of \<^verbatim>\<open>POST /offers\<close>; \<^verbatim>\<open>paymentMethods\<close> is absent, one string or
  an array of strings. The free-text \<^verbatim>\<open>terms\<close> are left out.
\<close>

datatype payment_methods = NoMethods | OneMethod string | MethodList "string list"

record offer_body =
  ob_type :: string
  ob_cryptocurrency :: string
  ob_fiatCurrency :: string
  ob_amount :: rat
  ob_price :: rat
  ob_minLimit :: rat
  ob_maxLimit :: rat
  ob_paymentMethods :: payment_methods
  ob_expiresInHours :: nat

text \<open>
  Line 85: an absent field and an empty string are falsy, an array is not, even an
  empty one. Line 113: one string stands for the array that holds it.
\<close>

fun methods_given :: "payment_methods \<Rightarrow> string list option" where
  "methods_given NoMethods = None"
| "methods_given (OneMethod s) = (if s = [] then None else Some [s])"
| "methods_given (MethodList l) = Some l"

text \<open>
  Lines 85-102 are the checks of the route; \<^verbatim>\<open>P2POffer.create\<close> then validates the
  document against \<^verbatim>\<open>p2pOfferSchema\<close> and throws where it fails.
\<close>

definition createOffer :: "db \<Rightarrow> nat \<Rightarrow> objectId \<Rightarrow> offer_body \<Rightarrow> offer response \<times> db" where
  "createOffer d now user b =
     (case methods_given (ob_paymentMethods b) of
        None \<Rightarrow> (Failure MissingFields, d)
      | Some methods \<Rightarrow>
         (if ob_type b = [] \<or> ob_cryptocurrency b = [] \<or> ob_fiatCurrency b = []
             \<or> ob_amount b = 0 \<or> ob_price b = 0 \<or> ob_minLimit b = 0 \<or> ob_maxLimit b = 0
          then (Failure MissingFields, d)
          else if ob_maxLimit b < ob_minLimit b then (Failure LimitsOrder, d)
          else if ob_amount b < ob_minLimit b \<or> ob_amount b > ob_maxLimit b
            then (Failure AmountNotWithinLimits, d)
          else if toUpperCase (ob_cryptocurrency b) \<notin> set supportedCryptos
            then (Failure UnsupportedCryptocurrency, d)
          else
            (let x = \<lparr>o_id = fresh_id (map o_id (offers d)),
                      o_userId = user,
                      o_type = (if ob_type b = ''sell'' then Sell else Buy),
                      o_cryptocurrency = toUpperCase (ob_cryptocurrency b),
                      o_fiatCurrency = toUpperCase (ob_fiatCurrency b),
                      o_amount = ob_amount b,
                      o_price = ob_price b,
                      o_minLimit = ob_minLimit b,
                      o_maxLimit = ob_maxLimit b,
                      o_paymentMethods = methods,
                      o_status = ''active'',
                      o_completedAt = None,
                      o_expiresAt = now + ob_expiresInHours b * 60 * 60 * 1000,
                      o_createdAt = now\<rparr>
             in if (ob_type b \<noteq> ''buy'' \<and> ob_type b \<noteq> ''sell'') \<or> \<not> p2pOfferSchema_valid x
                then (Failure ServerError, d)
                else (Success x, d\<lparr>offers := offers d @ [x]\<rparr>))))"

text \<open>
  Lines 183-187: the owner sets the status to whatever the body carries;
  \<^verbatim>\<open>findOneAndUpdate\<close> runs no validator.
\<close>

definition updateOfferStatus ::
  "db \<Rightarrow> objectId \<Rightarrow> objectId \<Rightarrow> string option \<Rightarrow> offer response \<times> db" where
  "updateOfferStatus d user oid status =
     (case findOne (\<lambda>x. o_id x = oid \<and> o_userId x = user) (offers d) of
        None \<Rightarrow> (Failure OfferNotFound, d)
      | Some k \<Rightarrow>
         (let x = (case status of None \<Rightarrow> offers d ! k | Some s \<Rightarrow> (offers d ! k)\<lparr>o_status := s\<rparr>)
          in (Success x, d\<lparr>offers := (offers d)[k := x]\<rparr>)))"

record offer_query =
  q_type :: "string option"
  q_cryptocurrency :: "string option"
  q_fiatCurrency :: "string option"
  q_paymentMethod :: "string option"
  q_minAmount :: "rat option"
  q_maxAmount :: "rat option"
  q_page :: nat
  q_limit :: nat

fun type_name :: "offer_type \<Rightarrow> string" where
  "type_name Buy = ''buy''"
| "type_name Sell = ''sell''"

definition given :: "'a option \<Rightarrow> ('a \<Rightarrow> bool) \<Rightarrow> bool" where
  "given f P = (case f of None \<Rightarrow> True | Some v \<Rightarrow> P v)"

text \<open>Lines 30-42: the filter starts from \<^verbatim>\<open>{ status: 'active' }\<close>.\<close>

definition offer_filter :: "offer_query \<Rightarrow> offer \<Rightarrow> bool" where
  "offer_filter q x \<longleftrightarrow>
     o_status x = ''active''
     \<and> given (truthy (q_type q)) (\<lambda>s. type_name (o_type x) = s)
     \<and> given (truthy (q_cryptocurrency q)) (\<lambda>s. o_cryptocurrency x = toUpperCase s)
     \<and> given (truthy (q_fiatCurrency q)) (\<lambda>s. o_fiatCurrency x = toUpperCase s)
     \<and> given (truthy (q_paymentMethod q)) (\<lambda>s. s \<in> set (o_paymentMethods x))
     \<and> given (q_minAmount q) (\<lambda>a. a \<le> o_amount x)
     \<and> given (q_maxAmount q) (\<lambda>a. o_amount x \<le> a)"

text \<open>
  Lines 44-51: newest first, one page of them, and the count of all matches. A page of
  zero makes the skip negative, which the store refuses; a limit of zero is no limit.
\<close>

definition listOffers :: "db \<Rightarrow> nat \<Rightarrow> offer_query \<Rightarrow> (offer list \<times> nat) response" where
  "listOffers d now q =
     (if q_page q = 0 \<and> q_limit q \<noteq> 0 then Failure ServerError
      else
        (let found = rev (sort_key o_createdAt (filter (offer_filter q) (offers d)));
             skipped = drop ((q_page q - 1) * q_limit q) found
         in Success (if q_limit q = 0 then skipped else take (q_limit q) skipped, length found)))"

subsection \<open>Wallets and deposits\<close>

record wallet_body =
  wb_cryptocurrency :: string
  wb_network :: string
  wb_label :: "string option"
  wb_isDefault :: bool

definition same_asset :: "objectId \<Rightarrow> string \<Rightarrow> string \<Rightarrow> wallet \<Rightarrow> bool" where
  "same_asset uid c n w \<longleftrightarrow> w_userId w = uid \<and> w_cryptocurrency w = c \<and> w_network w = n"

text \<open>
  Lines 584-633. The generated address is a function of user, currency and network and
  is unique in the collection. \<^verbatim>\<open>Wallet.create\<close> validates the new document, runs
  the pre-save hook and inserts; the insert throws on an address that is already there,
  after the hook has run.
\<close>

definition createWallet :: "db \<Rightarrow> objectId \<Rightarrow> wallet_body \<Rightarrow> wallet response \<times> db" where
  "createWallet d user b =
     (if wb_cryptocurrency b = [] \<or> wb_network b = [] then (Failure MissingFields, d)
      else if toUpperCase (wb_cryptocurrency b) \<notin> set supportedCryptos
        then (Failure UnsupportedCryptocurrency, d)
      else if findOne (\<lambda>w. same_asset user (toUpperCase (wb_cryptocurrency b)) (wb_network b) w
                  \<and> w_isActive w) (wallets d) \<noteq> None
        then (Failure WalletExists, d)
      else
        (let w = \<lparr>w_id = fresh_id (map w_id (wallets d) @ retired d),
                  w_userId = user,
                  w_cryptocurrency = toUpperCase (wb_cryptocurrency b),
                  w_network = wb_network b,
                  w_label = wb_label b,
                  w_isDefault = wb_isDefault b,
                  w_balance = 0, w_lockedBalance = 0, w_totalDeposits = 0, w_totalWithdrawals = 0,
                  w_isActive = True\<rparr>
         in if \<not> walletSchema_valid w then (Failure ServerError, d)
            else if findOne (same_asset user (toUpperCase (wb_cryptocurrency b)) (wb_network b))
                      (wallets d) \<noteq> None
              then (Failure ServerError, d\<lparr>wallets := walletSchema_pre_save w (wallets d)\<rparr>)
            else (Success w, d\<lparr>wallets := walletSchema_pre_save w (wallets d) @ [w]\<rparr>)))"

text \<open>Lines 678-682: label and default flag only.\<close>

definition updateWallet ::
  "db \<Rightarrow> objectId \<Rightarrow> objectId \<Rightarrow> string option \<Rightarrow> bool option \<Rightarrow> wallet response \<times> db" where
  "updateWallet d user wid label isDefault =
     (case findOne (\<lambda>w. w_id w = wid \<and> w_userId w = user) (wallets d) of
        None \<Rightarrow> (Failure WalletNotFound, d)
      | Some i \<Rightarrow>
         (let w0 = wallets d ! i;
              w1 = (case label of None \<Rightarrow> w0 | Some l \<Rightarrow> w0\<lparr>w_label := Some l\<rparr>);
              w2 = (case isDefault of None \<Rightarrow> w1 | Some f \<Rightarrow> w1\<lparr>w_isDefault := f\<rparr>)
          in (Success w2, d\<lparr>wallets := (wallets d)[i := w2]\<rparr>)))"

definition remove_nth :: "nat \<Rightarrow> 'a list \<Rightarrow> 'a list" where
  "remove_nth i xs = take i xs @ drop (Suc i) xs"

text \<open>Lines 701-710.\<close>

definition deleteWallet :: "db \<Rightarrow> objectId \<Rightarrow> objectId \<Rightarrow> unit response \<times> db" where
  "deleteWallet d user wid =
     (case findOne (\<lambda>w. w_id w = wid \<and> w_userId w = user) (wallets d) of
        None \<Rightarrow> (Failure WalletNotFound, d)
      | Some i \<Rightarrow>
         (if 0 < w_balance (wallets d ! i) \<or> 0 < w_lockedBalance (wallets d ! i)
          then (Failure WalletHasBalance, d)
          else (case findOne (\<lambda>w. w_id w = wid) (wallets d) of
                  None \<Rightarrow> (Success (), d)
                | Some j \<Rightarrow>
                   (Success (), d\<lparr>wallets := remove_nth j (wallets d),
                                   retired := wid # retired d\<rparr>))))"

text \<open>
  Lines 721-755: the deposit is created pending; \<^verbatim>\<open>depositSchema\<close> puts \<^verbatim>\<open>min: 0\<close>
  on the amount and requires the wallet's currency and network.
\<close>

definition createDeposit ::
  "db \<Rightarrow> objectId \<Rightarrow> objectId option \<Rightarrow> rat \<Rightarrow> string option \<Rightarrow> deposit response \<times> db" where
  "createDeposit d user walletId amount txHash =
     (case walletId of
        None \<Rightarrow> (Failure MissingFields, d)
      | Some wid \<Rightarrow>
         (if amount = 0 then (Failure MissingFields, d)
          else
            (case findOne (\<lambda>w. w_id w = wid \<and> w_userId w = user) (wallets d) of
               None \<Rightarrow> (Failure WalletNotFound, d)
             | Some i \<Rightarrow>
                (if truthy txHash \<noteq> None
                    \<and> findOne (\<lambda>p. dp_txHash p = txHash \<and> dp_userId p = user) (deposits d) \<noteq> None
                 then (Failure DepositExists, d)
                 else if amount < 0 \<or> w_cryptocurrency (wallets d ! i) = []
                      \<or> w_network (wallets d ! i) = []
                   then (Failure ServerError, d)
                 else
                   (let p = \<lparr>dp_id = fresh_id (map dp_id (deposits d)),
                             dp_userId = user,
                             dp_walletId = w_id (wallets d ! i),
                             dp_amount = amount,
                             dp_txHash = txHash,
                             dp_status = ''pending''\<rparr>
                    in (Success p, d\<lparr>deposits := deposits d @ [p]\<rparr>))))))"

text \<open>
  Lines 758-775, the timer of a pending deposit firing: the deposit is confirmed and
  saved, which validates its amount again, and \<^verbatim>\<open>$inc\<close> adds the amount to the
  wallet, if the wallet is still there. No validator runs on that update. An error is
  caught and logged.
\<close>

definition confirmDeposit :: "db \<Rightarrow> objectId \<Rightarrow> db" where
  "confirmDeposit d pid =
     (case findOne (\<lambda>p. dp_id p = pid \<and> dp_status p = ''pending'') (deposits d) of
        None \<Rightarrow> d
      | Some k \<Rightarrow>
         (let p = deposits d ! k;
              d1 = d\<lparr>deposits := (deposits d)[k := p\<lparr>dp_status := ''confirmed''\<rparr>]\<rparr>
          in if dp_amount p < 0 then d
             else
               (case findOne (\<lambda>w. w_id w = dp_walletId p) (wallets d1) of
                  None \<Rightarrow> d1
                | Some i \<Rightarrow>
                   d1\<lparr>wallets := (wallets d1)
                        [i := (wallets d1 ! i)\<lparr>w_balance := w_balance (wallets d1 ! i) + dp_amount p,
                             w_totalDeposits := w_totalDeposits (wallets d1 ! i) + dp_amount p\<rparr>]\<rparr>)))"

subsection \<open>Sequences of requests\<close>

datatype request =
    CreateOffer objectId offer_body
  | UpdateOfferStatus objectId objectId "string option"
  | AcceptOffer objectId objectId rat string
  | UpdateTradeStatus objectId objectId body
  | CreateWallet objectId wallet_body
  | UpdateWallet objectId objectId "string option" "bool option"
  | DeleteWallet objectId objectId
  | CreateDeposit objectId "objectId option" rat "string option"
  | ConfirmDeposit objectId

fun handle :: "db \<Rightarrow> nat \<Rightarrow> request \<Rightarrow> db" where
  "handle d now (CreateOffer user b) = snd (createOffer d now user b)"
| "handle d now (UpdateOfferStatus user oid s) = snd (updateOfferStatus d user oid s)"
| "handle d now (AcceptOffer user oid amount pm) = snd (acceptOffer d now user oid amount pm)"
| "handle d now (UpdateTradeStatus user tid b) = snd (updateTradeStatus d now user tid b)"
| "handle d now (CreateWallet user b) = snd (createWallet d user b)"
| "handle d now (UpdateWallet user wid l f) = snd (updateWallet d user wid l f)"
| "handle d now (DeleteWallet user wid) = snd (deleteWallet d user wid)"
| "handle d now (CreateDeposit user wid amount tx) = snd (createDeposit d user wid amount tx)"
| "handle d now (ConfirmDeposit pid) = confirmDeposit d pid"

text \<open>The requests are served one after the other, each at its own time.\<close>

fun run :: "db \<Rightarrow> (nat \<times> request) list \<Rightarrow> db" where
  "run d [] = d"
| "run d ((now, r) # rs) = run (handle d now r) rs"

subsection \<open>The ledger\<close>

text \<open>The amount of one currency held in all wallets, available and locked.\<close>

definition total_of :: "string \<Rightarrow> wallet list \<Rightarrow> rat" where
  "total_of c ws =
     sum_list (map (\<lambda>w. w_balance w + w_lockedBalance w)
       (filter (\<lambda>w. w_cryptocurrency w = c) ws))"

definition wallets_nonneg :: "wallet list \<Rightarrow> bool" where
  "wallets_nonneg ws = list_all (\<lambda>w. 0 \<le> w_balance w \<and> 0 \<le> w_lockedBalance w) ws"

text \<open>Every stored deposit passed \<^verbatim>\<open>depositSchema\<close>: its amount is not negative.\<close>

definition deposits_valid :: "deposit list \<Rightarrow> bool" where
  "deposits_valid ps = list_all (\<lambda>p. 0 \<le> dp_amount p) ps"

subsection \<open>Sample documents\<close>

text \<open>
  Two users, 1 and 2, each with an active BTC wallet; user 1 owns offer 1. The offer
  passes the checks of \<^verbatim>\<open>POST /offers\<close>.
\<close>

definition btc_wallet :: "objectId \<Rightarrow> objectId \<Rightarrow> rat \<Rightarrow> rat \<Rightarrow> wallet" where
  "btc_wallet wid uid bal locked =
     \<lparr>w_id = wid, w_userId = uid, w_cryptocurrency = ''BTC'', w_network = ''BTC'',
      w_label = None, w_isDefault = False, w_balance = bal, w_lockedBalance = locked,
      w_totalDeposits = bal + locked, w_totalWithdrawals = 0, w_isActive = True\<rparr>"

definition btc_offer :: "offer_type \<Rightarrow> offer" where
  "btc_offer ty =
     \<lparr>o_id = 1, o_userId = 1, o_type = ty, o_cryptocurrency = ''BTC'', o_fiatCurrency = ''USD'',
      o_amount = 100, o_price = 50000, o_minLimit = 100, o_maxLimit = 50000,
      o_paymentMethods = [''bank_transfer''], o_status = ''active'', o_completedAt = None,
      o_expiresAt = 500, o_createdAt = 0\<rparr>"

definition market :: "offer_type \<Rightarrow> db" where
  "market ty =
     \<lparr>wallets = [btc_wallet 1 1 2 0, btc_wallet 2 2 1 0], offers = [btc_offer ty],
      trades = [], deposits = [], retired = []\<rparr>"

definition status_only :: "string \<Rightarrow> body" where
  "status_only s =
     \<lparr>b_status = s, b_paymentProof = None, b_notes = None, b_payoutMethod = None,
      b_payoutDetails = None\<rparr>"

text \<open>
  The trade of user 2 accepting 5000 USD of the sell offer, as \<^verbatim>\<open>IP2PTrade\<close> types it,
  with the escrow flag reading true.
\<close>

definition held_trade :: trade where
  "held_trade =
     \<lparr>t_id = 1, t_offerId = 1, t_buyerId = 2, t_sellerId = 1, t_cryptocurrency = ''BTC'',
      t_fiatCurrency = ''USD'', t_amount = 1 / 10, t_price = 50000, t_totalFiat = 5000,
      t_paymentMethod = ''bank_transfer'', t_status = ''pending'', t_escrowAmount = 1 / 10,
      t_escrowHeld = Some True, t_paymentProof = None, t_payoutMethod = None,
      t_payoutDetails = None, t_notes = None, t_completedAt = None, t_cancelledAt = None\<rparr>"



text \<open>The sample market with only 0.05 BTC in the wallet of user 2.\<close>

definition short_market :: db where
  "short_market = (market Sell)\<lparr>wallets := [btc_wallet 1 1 2 0, btc_wallet 2 2 (1 / 20) 0]\<rparr>"

text \<open>The sample market after the trade was completed.\<close>

definition settled_market :: db where
  "settled_market =
     (market Sell)\<lparr>trades := [held_trade\<lparr>t_status := ''completed'', t_escrowHeld := None,
        t_completedAt := Some 2000\<rparr>]\<rparr>"

text \<open>
  An offer of 2 BTC at a price of 1, open to trades of 1 to 4 in fiat; user 2 holds
  5 BTC.
\<close>

definition small_market :: db where
  "small_market =
     \<lparr>wallets = [btc_wallet 1 1 2 0, btc_wallet 2 2 5 0],
      offers = [(btc_offer Sell)\<lparr>o_amount := 2, o_price := 1, o_minLimit := 1, o_maxLimit := 4\<rparr>],
      trades = [], deposits = [], retired = []\<rparr>"

definition no_filter :: offer_query where
  "no_filter =
     \<lparr>q_type = None, q_cryptocurrency = None, q_fiatCurrency = None, q_paymentMethod = None,
      q_minAmount = None, q_maxAmount = None, q_page = 1, q_limit = 20\<rparr>"

subsection \<open>Views of a state\<close>

text \<open>Owner, available and locked balance of every wallet.\<close>

definition ledger :: "wallet list \<Rightarrow> (objectId \<times> rat \<times> rat) list" where
  "ledger ws = map (\<lambda>w. (w_userId w, w_balance w, w_lockedBalance w)) ws"

text \<open>Buyer and seller of the trade a response carries.\<close>

definition parties :: "trade response \<Rightarrow> (objectId \<times> objectId) option" where
  "parties r = (case r of Success t \<Rightarrow> Some (t_buyerId t, t_sellerId t) | Failure e \<Rightarrow> None)"

definition traded :: "trade response \<Rightarrow> rat option" where
  "traded r = (case r of Success t \<Rightarrow> Some (t_amount t) | Failure e \<Rightarrow> None)"

text \<open>Status, time of completion and escrow flag of every stored trade.\<close>

definition escrow_state :: "db \<Rightarrow> (string \<times> nat option \<times> bool option) list" where
  "escrow_state d = map (\<lambda>t. (t_status t, t_completedAt t, t_escrowHeld t)) (trades d)"

definition succeeded :: "'a response \<Rightarrow> bool" where
  "succeeded r = (case r of Success t \<Rightarrow> True | Failure e \<Rightarrow> False)"

text \<open>Remaining amount and status of every offer.\<close>

definition remaining :: "db \<Rightarrow> (rat \<times> string) list" where
  "remaining d = map (\<lambda>x. (o_amount x, o_status x)) (offers d)"

definition db_valid :: "db \<Rightarrow> bool" where
  "db_valid d \<longleftrightarrow> wallets_nonneg (wallets d) \<and> deposits_valid (deposits d)"

section \<open>Properties\<close>

lemmas sample_defs = market_def btc_offer_def btc_wallet_def held_trade_def status_only_def

lemmas update_defs = updateTradeStatus_doc_def validStatuses_def truthy_def
  return_to_seller_def release_to_buyer_def Wallet_save_def walletSchema_valid_def
  walletSchema_pre_save_def

lemmas db_defs = Let_def updateTradeStatus_def P2PTrade_update_def or_else_def
  p2pTradeSchema_paths_def

lemmas accept_defs = acceptOffer_def accept_writes_def escrow_holder_def funded_def lock_def
  Wallet_save_def walletSchema_valid_def walletSchema_pre_save_def new_trade_def
  P2PTrade_create_def p2pTradeSchema_paths_def P2POffer_save_def p2pOfferSchema_valid_def
  offerStatuses_def consume_def fresh_id_def insufficient_def

subsection \<open>Queries\<close>

lemma findOne_Some: "findOne P xs = Some i \<Longrightarrow> i < length xs \<and> P (xs ! i)"
proof (induction xs arbitrary: i)
  case Nil
  then show ?case by simp
next
  case (Cons x xs)
  then show ?case by (cases "P x") (auto split: if_splits)
qed

lemma findOne_None_iff: "findOne P xs = None \<longleftrightarrow> (\<forall>x \<in> set xs. \<not> P x)"
  by (induction xs) auto

subsection \<open>The pre-save hook of a wallet\<close>

lemma pre_save_length: "length (walletSchema_pre_save w ws) = length ws"
  by (simp add: walletSchema_pre_save_def)

lemma pre_save_nth:
  "i < length ws \<Longrightarrow>
   w_balance (walletSchema_pre_save w ws ! i) = w_balance (ws ! i)
   \<and> w_lockedBalance (walletSchema_pre_save w ws ! i) = w_lockedBalance (ws ! i)
   \<and> w_cryptocurrency (walletSchema_pre_save w ws ! i) = w_cryptocurrency (ws ! i)"
  by (simp add: walletSchema_pre_save_def)

lemma pre_save_total: "total_of c (walletSchema_pre_save w ws) = total_of c ws"
  by (induction ws) (auto simp: walletSchema_pre_save_def total_of_def)

lemma pre_save_nonneg: "wallets_nonneg (walletSchema_pre_save w ws) = wallets_nonneg ws"
  by (induction ws) (auto simp: walletSchema_pre_save_def wallets_nonneg_def)

subsection \<open>Conservation of the ledger\<close>

lemma total_of_update:
  "i < length ws \<Longrightarrow> w_cryptocurrency w = w_cryptocurrency (ws ! i) \<Longrightarrow>
   w_balance w + w_lockedBalance w = w_balance (ws ! i) + w_lockedBalance (ws ! i) \<Longrightarrow>
   total_of c (ws[i := w]) = total_of c ws"
proof (induction ws arbitrary: i)
  case Nil
  then show ?case by simp
next
  case (Cons a ws)
  then show ?case by (cases i) (auto simp: total_of_def)
qed

lemma Wallet_save_total:
  assumes "Wallet_save ws i w = Some ws'" and "i < length ws"
    and "w_cryptocurrency w = w_cryptocurrency (ws ! i)"
    and "w_balance w + w_lockedBalance w = w_balance (ws ! i) + w_lockedBalance (ws ! i)"
  shows "total_of c ws' = total_of c ws"
proof -
  let ?ps = "walletSchema_pre_save w ws"
  from assms(1) have ws': "ws' = ?ps[i := w]"
    by (simp add: Wallet_save_def split: if_splits)
  have "total_of c (?ps[i := w]) = total_of c ?ps"
    using assms(2-4) by (intro total_of_update) (simp_all add: pre_save_length pre_save_nth)
  with ws' show ?thesis by (simp add: pre_save_total)
qed

lemma accept_writes_total:
  "total_of c (wallets (snd (accept_writes d now user k ta tf pm))) = total_of c (wallets d)"
proof (cases "findOne (funded (escrow_holder (offers d ! k) user)
    (o_cryptocurrency (offers d ! k)) ta) (wallets d)")
  case None
  then show ?thesis by (simp add: accept_writes_def Let_def)
next
  case (Some i)
  then have i: "i < length (wallets d)" by (simp add: findOne_Some)
  show ?thesis
  proof (cases "Wallet_save (wallets d) i (lock ta (wallets d ! i))")
    case None
    with Some show ?thesis by (simp add: accept_writes_def Let_def)
  next
    case (Some ws)
    then have "total_of c ws = total_of c (wallets d)"
      using i by (rule Wallet_save_total) (simp_all add: lock_def)
    with Some \<open>findOne _ (wallets d) = Some i\<close> show ?thesis
      by (simp add: accept_writes_def Let_def split: option.splits)
  qed
qed

lemma acceptOffer_total:
  "total_of c (wallets (snd (acceptOffer d now user oid amount pm))) = total_of c (wallets d)"
  by (simp add: acceptOffer_def Let_def accept_writes_total split: option.splits)

lemma updateTradeStatus_doc_unheld:
  "t_escrowHeld t \<noteq> Some True \<Longrightarrow> snd (updateTradeStatus_doc ws t now user b) = ws"
  by (simp add: updateTradeStatus_doc_def Let_def)

text \<open>A status update never writes a wallet.\<close>

lemma updateTradeStatus_wallets:
  "wallets (snd (updateTradeStatus d now user tid b)) = wallets d"
proof (cases "findOne (\<lambda>t. t_id t = tid) (trades d)")
  case None
  then show ?thesis by (simp add: updateTradeStatus_def)
next
  case (Some k)
  have "snd (updateTradeStatus_doc (wallets d) (p2pTradeSchema_paths (trades d ! k)) now user b)
      = wallets d"
    by (rule updateTradeStatus_doc_unheld) (simp add: p2pTradeSchema_paths_def)
  with Some show ?thesis
    by (auto simp: updateTradeStatus_def Let_def split: prod.splits sum.splits)
qed

text \<open>
  The total of every currency, available plus locked over all wallets, is the same
  after an accept and after a status update.
\<close>

lemma lifecycle_total:
  "total_of c (wallets (snd (acceptOffer d now user oid amount pm))) = total_of c (wallets d)
   \<and> total_of c (wallets (snd (updateTradeStatus d now user tid b))) = total_of c (wallets d)"
  by (simp add: acceptOffer_total updateTradeStatus_wallets)

text \<open>
  No status update sets the escrow flag: the trade it stores and answers with has
  none.
\<close>

lemma updateTradeStatus_flag:
  "updateTradeStatus d now user tid b = (Success t', d') \<Longrightarrow> t_escrowHeld t' = None"
  by (auto simp: updateTradeStatus_def Let_def P2PTrade_update_def p2pTradeSchema_paths_def
      split: option.splits prod.splits sum.splits)

subsection \<open>The sample accepts\<close>

lemma accept_sell_sample:
  "acceptOffer (market Sell) 1000 2 1 5000 ''bank_transfer''
   = (Success (held_trade\<lparr>t_escrowHeld := None\<rparr>),
      \<lparr>wallets = [btc_wallet 1 1 2 0, (btc_wallet 2 2 (9 / 10) (1 / 10))\<lparr>w_totalDeposits := 1\<rparr>],
       offers = [(btc_offer Sell)\<lparr>o_amount := 999 / 10\<rparr>],
       trades = [held_trade\<lparr>t_escrowHeld := None\<rparr>], deposits = [], retired = []\<rparr>)"
  by (simp add: sample_defs accept_defs)

lemma accept_buy_sample:
  "acceptOffer (market Buy) 1000 2 1 5000 ''bank_transfer''
   = (Success (held_trade\<lparr>t_escrowHeld := None, t_buyerId := 1, t_sellerId := 2\<rparr>),
      \<lparr>wallets = [(btc_wallet 1 1 (19 / 10) (1 / 10))\<lparr>w_totalDeposits := 2\<rparr>, btc_wallet 2 2 1 0],
       offers = [(btc_offer Buy)\<lparr>o_amount := 999 / 10\<rparr>],
       trades = [held_trade\<lparr>t_escrowHeld := None, t_buyerId := 1, t_sellerId := 2\<rparr>],
       deposits = [], retired = []\<rparr>)"
  by (simp add: sample_defs accept_defs)

subsection \<open>The end of an escrow hold\<close>

text \<open>
  C1 asks that a hold end in exactly one of the release to the buyer and the return to
  the seller, never in neither. \<^verbatim>\<open>acceptOffer\<close> builds the trade with
  \<^verbatim>\<open>escrowHeld: true\<close> and locks 0.1 BTC; the trade it stores has no such field. The
  trade is then completed, or cancelled: the update succeeds, the trade is terminal,
  its flag is still not there, and the ledger is what the accept left, 0.9 available and
  0.1 locked for user 2 and nothing new for user 1. Neither the release nor the return
  has run. The totals are kept all along: 3 BTC.
\<close>

theorem hold_ends_without_release_or_return:
  "t_escrowHeld (new_trade (market Sell) (btc_offer Sell) 2 (1 / 10) 5000 ''bank_transfer'')
     = Some True
   \<and> escrow_state (snd (acceptOffer (market Sell) 1000 2 1 5000 ''bank_transfer''))
       = [(''pending'', None, None)]
   \<and> ledger (wallets (snd (acceptOffer (market Sell) 1000 2 1 5000 ''bank_transfer'')))
       = [(1, 2, 0), (2, 9 / 10, 1 / 10)]
   \<and> escrow_state (run (market Sell)
        [(1000, AcceptOffer 2 1 5000 ''bank_transfer''),
         (2000, UpdateTradeStatus 1 1 (status_only ''completed''))])
       = [(''completed'', Some 2000, None)]
   \<and> ledger (wallets (run (market Sell)
        [(1000, AcceptOffer 2 1 5000 ''bank_transfer''),
         (2000, UpdateTradeStatus 1 1 (status_only ''completed''))]))
       = [(1, 2, 0), (2, 9 / 10, 1 / 10)]
   \<and> escrow_state (run (market Sell)
        [(1000, AcceptOffer 2 1 5000 ''bank_transfer''),
         (2000, UpdateTradeStatus 1 1 (status_only ''cancelled''))])
       = [(''cancelled'', None, None)]
   \<and> ledger (wallets (run (market Sell)
        [(1000, AcceptOffer 2 1 5000 ''bank_transfer''),
         (2000, UpdateTradeStatus 1 1 (status_only ''cancelled''))]))
       = [(1, 2, 0), (2, 9 / 10, 1 / 10)]
   \<and> total_of ''BTC'' (wallets (market Sell)) = 3
   \<and> total_of ''BTC'' (wallets (run (market Sell)
        [(1000, AcceptOffer 2 1 5000 ''bank_transfer''),
         (2000, UpdateTradeStatus 1 1 (status_only ''completed''))])) = 3"
  unfolding run.simps handle.simps accept_sell_sample
  by (simp add: db_defs update_defs ledger_def escrow_state_def total_of_def new_trade_def
      sample_defs)

subsection \<open>Whose wallet holds the escrow\<close>

lemma accept_writes_parties:
  assumes "accept_writes d now user k ta tf pm = (Success t, d')"
  shows "t_buyerId t = escrow_holder (offers d ! k) user
       \<and> t_sellerId t = (if o_type (offers d ! k) = Sell then o_userId (offers d ! k) else user)
       \<and> t_escrowHeld t = None"
  using assms
  by (auto simp: accept_writes_def Let_def P2PTrade_create_def new_trade_def escrow_holder_def
      p2pTradeSchema_paths_def split: option.splits if_splits)

text \<open>
  On every successful accept the user whose wallet was locked is the buyer of the trade,
  the seller is the other party, and the stored trade carries no escrow flag.
\<close>

lemma accept_holder_is_buyer:
  assumes "acceptOffer d now user oid amount pm = (Success t, d')"
    and "findOne (\<lambda>x. o_id x = oid) (offers d) = Some k"
  shows "t_buyerId t = escrow_holder (offers d ! k) user \<and> t_sellerId t \<noteq> t_buyerId t
       \<and> t_escrowHeld t = None"
proof -
  from assms have own: "o_userId (offers d ! k) \<noteq> user"
    and w: "accept_writes d now user k (amount / o_price (offers d ! k)) amount pm = (Success t, d')"
    by (auto simp: acceptOffer_def Let_def split: if_splits)
  from accept_writes_parties [OF w] own show ?thesis
    by (auto simp: escrow_holder_def)
qed

text \<open>
  C2 asks that the wallet locked by \<^verbatim>\<open>acceptOffer\<close> belong to the trade's
  \<^verbatim>\<open>sellerId\<close>. The code locks the wallet of the \<^verbatim>\<open>buyerId\<close>, on either type of
  offer. User 2 accepts the buy offer of user 1: the trade records buyer 1 and seller 2,
  and the 0.1 BTC are locked in the wallet of user 1. User 2 accepts the sell offer of
  user 1: buyer 2, seller 1, and the lock sits in the wallet of user 2.
\<close>

theorem accept_locks_buyer_not_seller:
  "parties (fst (acceptOffer (market Buy) 1000 2 1 5000 ''bank_transfer'')) = Some (1, 2)
   \<and> ledger (wallets (snd (acceptOffer (market Buy) 1000 2 1 5000 ''bank_transfer'')))
       = [(1, 19 / 10, 1 / 10), (2, 1, 0)]
   \<and> parties (fst (acceptOffer (market Sell) 1000 2 1 5000 ''bank_transfer'')) = Some (2, 1)
   \<and> ledger (wallets (snd (acceptOffer (market Sell) 1000 2 1 5000 ''bank_transfer'')))
       = [(1, 2, 0), (2, 9 / 10, 1 / 10)]"
  unfolding accept_sell_sample accept_buy_sample
  by (simp add: parties_def ledger_def sample_defs)

text \<open>
  C4 asks that cancelling the trade restore the locked wallet. User 2 accepts the sell
  offer and the trade is cancelled: the request succeeds, the status reads
  \<^verbatim>\<open>cancelled\<close>, and the wallet of user 2 still has 0.9 BTC available and 0.1 locked,
  because the stored trade carries no \<^verbatim>\<open>escrowHeld\<close>. On a trade document whose flag
  reads true the unlock is aimed at the seller's wallet, not at the locked one: it fails
  the schema when the seller has nothing locked, and takes the amount out of the
  seller's own lock when there is one.
\<close>

theorem lock_then_cancel_not_restored:
  "ledger (wallets (market Sell)) = [(1, 2, 0), (2, 1, 0)]
   \<and> ledger (wallets (run (market Sell)
        [(1000, AcceptOffer 2 1 5000 ''bank_transfer''),
         (2000, UpdateTradeStatus 2 1 (status_only ''cancelled''))]))
       = [(1, 2, 0), (2, 9 / 10, 1 / 10)]
   \<and> map t_status (trades (run (market Sell)
        [(1000, AcceptOffer 2 1 5000 ''bank_transfer''),
         (2000, UpdateTradeStatus 2 1 (status_only ''cancelled''))])) = [''cancelled'']
   \<and> updateTradeStatus_doc (wallets (snd (acceptOffer (market Sell) 1000 2 1 5000 ''bank_transfer'')))
        held_trade 2000 2 (status_only ''cancelled'')
       = (Inl ServerError, wallets (snd (acceptOffer (market Sell) 1000 2 1 5000 ''bank_transfer'')))
   \<and> ledger (snd (updateTradeStatus_doc [btc_wallet 1 1 2 (1 / 2), btc_wallet 2 2 (9 / 10) (1 / 10)]
        held_trade 2000 2 (status_only ''cancelled'')))
       = [(1, 21 / 10, 4 / 10), (2, 9 / 10, 1 / 10)]"
  unfolding run.simps handle.simps accept_sell_sample
  by (simp add: db_defs update_defs ledger_def sample_defs)

subsection \<open>Completing a trade\<close>

text \<open>
  C5 asks that two \<^verbatim>\<open>completed\<close> updates move the escrow exactly once. The trade
  that \<^verbatim>\<open>acceptOffer\<close> stores has no \<^verbatim>\<open>escrowHeld\<close>, so the guard of line 434 is
  false on the first update as on the second: both succeed and neither credits a wallet.
  The escrow is moved zero times and stays locked in the wallet of user 2.
\<close>

theorem completed_twice_moves_nothing:
  "map t_escrowHeld (trades (snd (acceptOffer (market Sell) 1000 2 1 5000 ''bank_transfer'')))
     = [None]
   \<and> ledger (wallets (snd (acceptOffer (market Sell) 1000 2 1 5000 ''bank_transfer'')))
       = [(1, 2, 0), (2, 9 / 10, 1 / 10)]
   \<and> succeeded (fst (updateTradeStatus
        (snd (acceptOffer (market Sell) 1000 2 1 5000 ''bank_transfer''))
        2000 1 1 (status_only ''completed'')))
   \<and> ledger (wallets (run (market Sell)
        [(1000, AcceptOffer 2 1 5000 ''bank_transfer''),
         (2000, UpdateTradeStatus 1 1 (status_only ''completed''))]))
       = [(1, 2, 0), (2, 9 / 10, 1 / 10)]
   \<and> succeeded (fst (updateTradeStatus (run (market Sell)
        [(1000, AcceptOffer 2 1 5000 ''bank_transfer''),
         (2000, UpdateTradeStatus 1 1 (status_only ''completed''))])
        3000 1 1 (status_only ''completed'')))
   \<and> ledger (wallets (run (market Sell)
        [(1000, AcceptOffer 2 1 5000 ''bank_transfer''),
         (2000, UpdateTradeStatus 1 1 (status_only ''completed'')),
         (3000, UpdateTradeStatus 1 1 (status_only ''completed''))]))
       = [(1, 2, 0), (2, 9 / 10, 1 / 10)]"
  unfolding run.simps handle.simps accept_sell_sample
  by (simp add: db_defs update_defs ledger_def succeeded_def sample_defs)


subsection \<open>No balance below zero\<close>

lemma nonneg_update:
  "wallets_nonneg ws \<Longrightarrow> 0 \<le> w_balance w \<Longrightarrow> 0 \<le> w_lockedBalance w \<Longrightarrow>
   wallets_nonneg (ws[i := w])"
  unfolding wallets_nonneg_def list_all_iff
  using set_update_subset_insert [of ws i w] by auto

lemma nonneg_nth:
  "wallets_nonneg ws \<Longrightarrow> i < length ws \<Longrightarrow>
   0 \<le> w_balance (ws ! i) \<and> 0 \<le> w_lockedBalance (ws ! i)"
  by (simp add: wallets_nonneg_def list_all_length)

lemma Wallet_save_nonneg:
  "Wallet_save ws i w = Some ws' \<Longrightarrow> wallets_nonneg ws \<Longrightarrow> wallets_nonneg ws'"
  by (auto simp: Wallet_save_def walletSchema_valid_def pre_save_nonneg nonneg_update
      split: if_splits)

lemma accept_writes_nonneg:
  "wallets_nonneg (wallets d) \<Longrightarrow>
   wallets_nonneg (wallets (snd (accept_writes d now user k ta tf pm)))"
  by (auto simp: accept_writes_def Let_def split: option.splits dest: Wallet_save_nonneg)

lemma acceptOffer_nonneg:
  "wallets_nonneg (wallets d) \<Longrightarrow>
   wallets_nonneg (wallets (snd (acceptOffer d now user oid amount pm)))"
  by (simp add: acceptOffer_def Let_def accept_writes_nonneg split: option.splits)

lemma accept_writes_deposits:
  "deposits (snd (accept_writes d now user k ta tf pm)) = deposits d"
  by (simp add: accept_writes_def Let_def split: option.splits)

lemma acceptOffer_deposits:
  "deposits (snd (acceptOffer d now user oid amount pm)) = deposits d"
  by (simp add: acceptOffer_def Let_def accept_writes_deposits split: option.splits)

lemma updateTradeStatus_doc_nonneg:
  "wallets_nonneg ws \<Longrightarrow> wallets_nonneg (snd (updateTradeStatus_doc ws t now user b))"
  by (auto simp: updateTradeStatus_doc_def Let_def release_to_buyer_def return_to_seller_def
      split: option.splits dest: Wallet_save_nonneg)

lemma updateTradeStatus_deposits:
  "deposits (snd (updateTradeStatus d now user tid b)) = deposits d"
  by (auto simp: updateTradeStatus_def Let_def split: option.splits prod.splits sum.splits)

lemma createOffer_same:
  "wallets (snd (createOffer d now user b)) = wallets d
   \<and> deposits (snd (createOffer d now user b)) = deposits d"
  by (simp add: createOffer_def Let_def split: option.splits)

lemma updateOfferStatus_same:
  "wallets (snd (updateOfferStatus d user oid s)) = wallets d
   \<and> deposits (snd (updateOfferStatus d user oid s)) = deposits d"
  by (simp add: updateOfferStatus_def Let_def split: option.splits)

lemma nonneg_append:
  "wallets_nonneg (ws @ [w]) \<longleftrightarrow>
   wallets_nonneg ws \<and> 0 \<le> w_balance w \<and> 0 \<le> w_lockedBalance w"
  by (simp add: wallets_nonneg_def)

lemma createWallet_valid: "db_valid d \<Longrightarrow> db_valid (snd (createWallet d user b))"
  by (simp add: createWallet_def Let_def db_valid_def nonneg_append pre_save_nonneg)

lemma updateWallet_valid:
  assumes v: "db_valid d"
  shows "db_valid (snd (updateWallet d user wid l f))"
proof (cases "findOne (\<lambda>w. w_id w = wid \<and> w_userId w = user) (wallets d)")
  case None
  with v show ?thesis by (simp add: updateWallet_def)
next
  case (Some i)
  from Some have "i < length (wallets d)" by (simp add: findOne_Some)
  with v have "0 \<le> w_balance (wallets d ! i) \<and> 0 \<le> w_lockedBalance (wallets d ! i)"
    by (simp add: db_valid_def nonneg_nth)
  with v Some show ?thesis
    by (auto simp: updateWallet_def Let_def db_valid_def split: option.splits intro!: nonneg_update)
qed

lemma remove_nth_nonneg: "wallets_nonneg ws \<Longrightarrow> wallets_nonneg (remove_nth j ws)"
  unfolding wallets_nonneg_def list_all_iff remove_nth_def
  by (auto dest: in_set_takeD in_set_dropD)

lemma deleteWallet_valid: "db_valid d \<Longrightarrow> db_valid (snd (deleteWallet d user wid))"
  by (auto simp: deleteWallet_def db_valid_def remove_nth_nonneg split: option.splits)

lemma createDeposit_valid: "db_valid d \<Longrightarrow> db_valid (snd (createDeposit d user wid amount tx))"
  by (auto simp: createDeposit_def Let_def db_valid_def deposits_valid_def split: option.splits)

lemma deposits_valid_update:
  "deposits_valid ps \<Longrightarrow> k < length ps \<Longrightarrow> deposits_valid (ps[k := (ps ! k)\<lparr>dp_status := s\<rparr>])"
  unfolding deposits_valid_def list_all_length by (simp add: nth_list_update)

lemma confirmDeposit_valid:
  assumes v: "db_valid d"
  shows "db_valid (confirmDeposit d pid)"
proof (cases "findOne (\<lambda>p. dp_id p = pid \<and> dp_status p = ''pending'') (deposits d)")
  case None
  with v show ?thesis by (simp add: confirmDeposit_def)
next
  case (Some k)
  from Some have k: "k < length (deposits d)" by (simp add: findOne_Some)
  with v have amt: "0 \<le> dp_amount (deposits d ! k)"
    by (simp add: db_valid_def deposits_valid_def list_all_length)
  from v k have ps: "deposits_valid ((deposits d)[k := (deposits d ! k)\<lparr>dp_status := ''confirmed''\<rparr>])"
    by (simp add: db_valid_def deposits_valid_update)
  show ?thesis
  proof (cases "findOne (\<lambda>w. w_id w = dp_walletId (deposits d ! k)) (wallets d)")
    case None
    with Some v ps amt show ?thesis by (simp add: confirmDeposit_def Let_def db_valid_def)
  next
    case (Some i)
    then have "i < length (wallets d)" by (simp add: findOne_Some)
    with v have "0 \<le> w_balance (wallets d ! i) \<and> 0 \<le> w_lockedBalance (wallets d ! i)"
      by (simp add: db_valid_def nonneg_nth)
    with amt v ps Some \<open>findOne _ (deposits d) = Some k\<close> show ?thesis
      by (simp add: confirmDeposit_def Let_def db_valid_def nonneg_update)
  qed
qed

lemma handle_valid:
  assumes v: "db_valid d"
  shows "db_valid (handle d now r)"
proof (cases r)
  case (CreateOffer user b)
  with v show ?thesis by (simp add: db_valid_def createOffer_same)
next
  case (UpdateOfferStatus user oid s)
  with v show ?thesis by (simp add: db_valid_def updateOfferStatus_same)
next
  case (AcceptOffer user oid amount pm)
  with v show ?thesis by (simp add: db_valid_def acceptOffer_nonneg acceptOffer_deposits)
next
  case (UpdateTradeStatus user tid b)
  with v show ?thesis
    by (simp add: db_valid_def updateTradeStatus_wallets updateTradeStatus_deposits)
next
  case (CreateWallet user b)
  with v show ?thesis by (simp add: createWallet_valid)
next
  case (UpdateWallet user wid l f)
  with v show ?thesis by (simp add: updateWallet_valid)
next
  case (DeleteWallet user wid)
  with v show ?thesis by (simp add: deleteWallet_valid)
next
  case (CreateDeposit user wid amount tx)
  with v show ?thesis by (simp add: createDeposit_valid)
next
  case (ConfirmDeposit pid)
  with v show ?thesis by (simp add: confirmDeposit_valid)
qed

lemma run_valid: "db_valid d \<Longrightarrow> db_valid (run d rs)"
  by (induction rs arbitrary: d) (auto simp: handle_valid)

text \<open>
  C3. From a state whose wallets hold no negative balance (and whose deposits passed
  their schema), every sequence of requests (offers created and accepted, trade and
  offer statuses updated, wallets created, updated and deleted, deposits created and
  confirmed) leaves every wallet with \<^verbatim>\<open>balance\<close> and \<^verbatim>\<open>lockedBalance\<close> at or above
  zero. The same holds for the status handler on any trade document, also one whose
  escrow flag reads true: an unlock that would take \<^verbatim>\<open>lockedBalance\<close> below zero fails
  the \<^verbatim>\<open>min: 0\<close> of \<^verbatim>\<open>walletSchema\<close> and is not written.
\<close>

theorem wallets_never_negative:
  assumes "wallets_nonneg (wallets d)" and "deposits_valid (deposits d)"
  shows "wallets_nonneg (wallets (run d rs))
       \<and> wallets_nonneg (snd (updateTradeStatus_doc (wallets d) t now user b))"
  using assms run_valid [of d rs] updateTradeStatus_doc_nonneg [of "wallets d" t now user b]
  by (simp add: db_valid_def)

text \<open>
  C3 on the sample market: an accept, a cancel, a deposit of 3 BTC and its confirmation.
\<close>

theorem wallets_never_negative_witness:
  "wallets_nonneg (wallets (market Sell)) \<and> deposits_valid (deposits (market Sell))
   \<and> wallets_nonneg (wallets (run (market Sell)
        [(1000, AcceptOffer 2 1 5000 ''bank_transfer''),
         (2000, UpdateTradeStatus 2 1 (status_only ''cancelled'')),
         (3000, CreateDeposit 2 (Some 2) 3 None),
         (6000, ConfirmDeposit 1)]))
   \<and> ledger (wallets (run (market Sell)
        [(1000, AcceptOffer 2 1 5000 ''bank_transfer''),
         (2000, UpdateTradeStatus 2 1 (status_only ''cancelled'')),
         (3000, CreateDeposit 2 (Some 2) 3 None),
         (6000, ConfirmDeposit 1)])) = [(1, 2, 0), (2, 39 / 10, 1 / 10)]
   \<and> wallets_nonneg (snd (updateTradeStatus_doc (wallets (market Sell)) held_trade 2000 1
        (status_only ''cancelled'')))"
  using wallets_never_negative [of "market Sell" "[(1000, AcceptOffer 2 1 5000 ''bank_transfer''),
         (2000, UpdateTradeStatus 2 1 (status_only ''cancelled'')),
         (3000, CreateDeposit 2 (Some 2) 3 None),
         (6000, ConfirmDeposit 1)]" held_trade 2000 1 "status_only ''cancelled''"]
  unfolding run.simps handle.simps accept_sell_sample
  by (simp add: db_defs update_defs ledger_def createDeposit_def confirmDeposit_def fresh_id_def
      wallets_nonneg_def deposits_valid_def sample_defs)

subsection \<open>Consuming an offer\<close>

lemma consume_valid:
  "p2pOfferSchema_valid x \<Longrightarrow> p2pOfferSchema_valid (consume now ta x)"
  by (auto simp: consume_def p2pOfferSchema_valid_def offerStatuses_def)

lemma lock_valid:
  "walletSchema_valid w \<Longrightarrow> 0 \<le> ta \<Longrightarrow> ta \<le> w_balance w \<Longrightarrow> walletSchema_valid (lock ta w)"
  by (simp add: walletSchema_valid_def lock_def)

lemma accept_writes_succeeds:
  assumes k: "k < length (offers d)"
    and i: "findOne (funded (escrow_holder (offers d ! k) user) (o_cryptocurrency (offers d ! k)) ta)
              (wallets d) = Some i"
    and w: "walletSchema_valid (wallets d ! i)"
    and x: "p2pOfferSchema_valid (offers d ! k)"
    and lim: "\<not> o_maxLimit (offers d ! k) < o_minLimit (offers d ! k)"
    and ta: "0 \<le> ta" and tf: "0 \<le> tf" and pm: "pm \<noteq> []"
  shows "\<exists>t d'. accept_writes d now user k ta tf pm = (Success t, d') \<and> t_amount t = ta
           \<and> offers d' ! k = consume now ta (offers d ! k)"
proof -
  let ?x = "offers d ! k"
  from i have "ta \<le> w_balance (wallets d ! i)"
    using findOne_Some [OF i] by (simp add: funded_def)
  with w ta have "walletSchema_valid (lock ta (wallets d ! i))" by (simp add: lock_valid)
  then obtain ws where ws: "Wallet_save (wallets d) i (lock ta (wallets d ! i)) = Some ws"
    by (simp add: Wallet_save_def)
  from x ta tf pm have "P2PTrade_create (new_trade d ?x user ta tf pm)
      = Some (p2pTradeSchema_paths (new_trade d ?x user ta tf pm))"
    by (simp add: P2PTrade_create_def new_trade_def p2pOfferSchema_valid_def)
  moreover have "P2POffer_save os k (consume now ta ?x) = Some (os[k := consume now ta ?x])" for os
    using consume_valid [OF x] lim by (simp add: P2POffer_save_def consume_def)
  ultimately show ?thesis
    using i ws k by (simp add: accept_writes_def Let_def new_trade_def p2pTradeSchema_paths_def)
qed

text \<open>
  C6, as amended. The offer is found, active and not the caller's own, the fiat amount
  is within the limits, the payment method is one of the offer's, the price is
  positive, the escrow holder has an active wallet with the trade amount available, and
  offer and wallet pass their schemas. Then the accept succeeds with a trade of
  \<^verbatim>\<open>amount / price\<close>, whether or not that is more than what remains of the offer, and
  the offer's amount never grows: a trade amount below the remaining amount is
  subtracted and the offer stays active with a positive remainder; a trade amount that
  reaches or exceeds the remaining amount marks the offer completed and leaves its
  amount as it was.
\<close>

theorem acceptOffer_consumes:
  assumes "findOne (\<lambda>x. o_id x = oid) (offers d) = Some k"
    and "o_status (offers d ! k) = ''active''"
    and "o_userId (offers d ! k) \<noteq> user"
    and "o_minLimit (offers d ! k) \<le> amount" and "amount \<le> o_maxLimit (offers d ! k)"
    and "pm \<in> set (o_paymentMethods (offers d ! k))"
    and "0 < o_price (offers d ! k)"
    and "p2pOfferSchema_valid (offers d ! k)"
    and "findOne (funded (escrow_holder (offers d ! k) user) (o_cryptocurrency (offers d ! k))
           (amount / o_price (offers d ! k))) (wallets d) = Some i"
    and "walletSchema_valid (wallets d ! i)"
  shows "\<exists>t d'. acceptOffer d now user oid amount pm = (Success t, d')
       \<and> t_amount t = amount / o_price (offers d ! k)
       \<and> offers d' ! k = consume now (t_amount t) (offers d ! k)
       \<and> o_amount (offers d' ! k) \<le> o_amount (offers d ! k)
       \<and> (o_amount (offers d ! k) \<le> t_amount t \<longrightarrow>
            o_status (offers d' ! k) = ''completed''
            \<and> o_amount (offers d' ! k) = o_amount (offers d ! k))
       \<and> (t_amount t < o_amount (offers d ! k) \<longrightarrow>
            o_status (offers d' ! k) = ''active''
            \<and> o_amount (offers d' ! k) = o_amount (offers d ! k) - t_amount t
            \<and> 0 < o_amount (offers d' ! k))"
proof -
  let ?x = "offers d ! k"
  let ?ta = "amount / o_price ?x"
  from assms(1) have k: "k < length (offers d)" by (simp add: findOne_Some)
  from assms(8) have min: "0 \<le> o_minLimit ?x" and none: "[] \<notin> set (o_paymentMethods ?x)"
    by (simp_all add: p2pOfferSchema_valid_def)
  from min assms(4) have tf: "0 \<le> amount" by simp
  with assms(7) have ta: "0 \<le> ?ta" by simp
  from none assms(6) have pm: "pm \<noteq> []" by auto
  from assms(4,5) have lim: "\<not> o_maxLimit ?x < o_minLimit ?x" by simp
  from accept_writes_succeeds [OF k assms(9) assms(10) assms(8) lim ta tf pm]
  obtain t d' where w: "accept_writes d now user k ?ta amount pm = (Success t, d')"
    and a: "t_amount t = ?ta" and c: "offers d' ! k = consume now ?ta ?x"
    by blast
  from w assms(1-7) have "acceptOffer d now user oid amount pm = (Success t, d')"
    by (simp add: acceptOffer_def Let_def)
  with a c ta assms(2) show ?thesis
    by (auto simp: consume_def)
qed

lemma accept_small_sample:
  "acceptOffer small_market 1000 2 1 4 ''bank_transfer''
   = (Success (held_trade\<lparr>t_escrowHeld := None, t_amount := 4, t_price := 1, t_totalFiat := 4,
        t_escrowAmount := 4\<rparr>),
      \<lparr>wallets = [btc_wallet 1 1 2 0, (btc_wallet 2 2 1 4)\<lparr>w_totalDeposits := 5\<rparr>],
       offers = [(btc_offer Sell)\<lparr>o_amount := 2, o_price := 1, o_minLimit := 1, o_maxLimit := 4,
          o_status := ''completed'', o_completedAt := Some 1000\<rparr>],
       trades = [held_trade\<lparr>t_escrowHeld := None, t_amount := 4, t_price := 1, t_totalFiat := 4,
        t_escrowAmount := 4\<rparr>], deposits = [], retired = []\<rparr>)"
  by (simp add: small_market_def sample_defs accept_defs)

text \<open>
  The amended C6 on the offer of 2 BTC: an accept of 4 succeeds, the trade is of 4 BTC,
  and the offer is completed with its amount still 2.
\<close>

theorem acceptOffer_consumes_witness:
  "findOne (\<lambda>x. o_id x = 1) (offers small_market) = Some 0
   \<and> remaining small_market = [(2, ''active'')]
   \<and> findOne (funded (escrow_holder (offers small_market ! 0) 2)
         (o_cryptocurrency (offers small_market ! 0)) (4 / o_price (offers small_market ! 0)))
         (wallets small_market) = Some 1
   \<and> p2pOfferSchema_valid (offers small_market ! 0)
   \<and> walletSchema_valid (wallets small_market ! 1)
   \<and> succeeded (fst (acceptOffer small_market 1000 2 1 4 ''bank_transfer''))
   \<and> traded (fst (acceptOffer small_market 1000 2 1 4 ''bank_transfer'')) = Some 4
   \<and> remaining (snd (acceptOffer small_market 1000 2 1 4 ''bank_transfer''))
       = [(2, ''completed'')]"
proof -
  have found: "findOne (\<lambda>x. o_id x = 1) (offers small_market) = Some 0"
    and offer: "offers small_market ! 0
      = (btc_offer Sell)\<lparr>o_amount := 2, o_price := 1, o_minLimit := 1, o_maxLimit := 4\<rparr>"
    and left: "remaining small_market = [(2, ''active'')]"
    by (simp_all add: small_market_def remaining_def sample_defs)
  have funded: "findOne (funded (escrow_holder (offers small_market ! 0) 2)
         (o_cryptocurrency (offers small_market ! 0)) (4 / o_price (offers small_market ! 0)))
         (wallets small_market) = Some 1"
    and wallet: "walletSchema_valid (wallets small_market ! 1)"
    by (simp_all add: small_market_def sample_defs escrow_holder_def funded_def
        walletSchema_valid_def)
  have valid: "p2pOfferSchema_valid (offers small_market ! 0)"
    by (simp add: offer p2pOfferSchema_valid_def offerStatuses_def sample_defs)
  have "\<exists>t d'. acceptOffer small_market 1000 2 1 4 ''bank_transfer'' = (Success t, d')
       \<and> t_amount t = 4 / o_price (offers small_market ! 0)
       \<and> offers d' ! 0 = consume 1000 (t_amount t) (offers small_market ! 0)
       \<and> o_amount (offers d' ! 0) \<le> o_amount (offers small_market ! 0)
       \<and> (o_amount (offers small_market ! 0) \<le> t_amount t \<longrightarrow>
            o_status (offers d' ! 0) = ''completed''
            \<and> o_amount (offers d' ! 0) = o_amount (offers small_market ! 0))
       \<and> (t_amount t < o_amount (offers small_market ! 0) \<longrightarrow>
            o_status (offers d' ! 0) = ''active''
            \<and> o_amount (offers d' ! 0) = o_amount (offers small_market ! 0) - t_amount t
            \<and> 0 < o_amount (offers d' ! 0))"
    by (rule acceptOffer_consumes [OF found _ _ _ _ _ _ valid funded wallet])
       (simp_all add: offer sample_defs)
  then have ok: "succeeded (fst (acceptOffer small_market 1000 2 1 4 ''bank_transfer''))"
    by (auto simp: succeeded_def)
  have "traded (fst (acceptOffer small_market 1000 2 1 4 ''bank_transfer'')) = Some 4"
    and "remaining (snd (acceptOffer small_market 1000 2 1 4 ''bank_transfer''))
       = [(2, ''completed'')]"
    unfolding accept_small_sample by (simp_all add: traded_def remaining_def sample_defs)
  with found left funded wallet valid ok show ?thesis by blast
qed

text \<open>
  C6 as stated fails. The offer has 2 BTC left; an accept of 4 in fiat at price 1 is
  within the limits, succeeds with a trade of 4 BTC, and leaves the offer completed with
  its amount still 2: the trade exceeds the offer's amount and the amount never
  reaches zero.
\<close>

theorem accept_beyond_remaining:
  "remaining small_market = [(2, ''active'')]
   \<and> traded (fst (acceptOffer small_market 1000 2 1 4 ''bank_transfer'')) = Some 4
   \<and> remaining (snd (acceptOffer small_market 1000 2 1 4 ''bank_transfer'')) = [(2, ''completed'')]
   \<and> map t_amount (trades (snd (acceptOffer small_market 1000 2 1 4 ''bank_transfer''))) = [4]"
  unfolding accept_small_sample
  by (simp add: small_market_def sample_defs traded_def remaining_def)

subsection \<open>Expiry\<close>

lemma listOffers_active:
  assumes "listOffers d now q = Success (page, n)" and "x \<in> set page"
  shows "o_status x = ''active'' \<and> x \<in> set (offers d)"
proof -
  let ?found = "rev (sort_key o_createdAt (filter (offer_filter q) (offers d)))"
  let ?skipped = "drop ((q_page q - 1) * q_limit q) ?found"
  from assms(1) have "page = (if q_limit q = 0 then ?skipped else take (q_limit q) ?skipped)"
    by (simp add: listOffers_def Let_def split: if_splits)
  moreover have "set (take (q_limit q) ?skipped) \<subseteq> set ?found"
    by (rule order_trans [OF set_take_subset set_drop_subset])
  moreover have "set ?skipped \<subseteq> set ?found"
    by (rule set_drop_subset)
  ultimately have "set page \<subseteq> set ?found"
    by (simp split: if_splits)
  with assms(2) have "x \<in> set ?found" by blast
  then show ?thesis by (simp add: offer_filter_def)
qed

lemma consume_valid_time:
  "p2pOfferSchema_valid (consume now ta x) = p2pOfferSchema_valid (consume now' ta x)"
  by (simp add: consume_def p2pOfferSchema_valid_def)

lemma accept_writes_time:
  "fst (accept_writes d now user k ta tf pm) = fst (accept_writes d now' user k ta tf pm)"
  using consume_valid_time [of now ta "offers d ! k" now']
  by (auto simp: accept_writes_def Let_def P2POffer_save_def consume_def split: option.splits)

text \<open>
  C7, as amended. The status alone decides: an offer whose status is not
  \<^verbatim>\<open>active\<close> is not accepted, and \<^verbatim>\<open>listOffers\<close> returns stored offers with status
  \<^verbatim>\<open>active\<close> only. Neither handler consults the time of the request, so neither
  compares it with \<^verbatim>\<open>expiresAt\<close>: the response is the same at any time.
\<close>

theorem status_decides_acceptance:
  "(findOne (\<lambda>x. o_id x = oid) (offers d) = Some k \<and> o_status (offers d ! k) \<noteq> ''active'' \<longrightarrow>
      acceptOffer d now user oid amount pm = (Failure OfferNotActive, d))
   \<and> (listOffers d now q = Success (page, n) \<longrightarrow>
        (\<forall>x \<in> set page. o_status x = ''active'' \<and> x \<in> set (offers d)))
   \<and> listOffers d now q = listOffers d now' q
   \<and> fst (acceptOffer d now user oid amount pm) = fst (acceptOffer d now' user oid amount pm)"
proof (intro conjI impI ballI)
  assume "findOne (\<lambda>x. o_id x = oid) (offers d) = Some k \<and> o_status (offers d ! k) \<noteq> ''active''"
  then show "acceptOffer d now user oid amount pm = (Failure OfferNotActive, d)"
    by (simp add: acceptOffer_def)
next
  fix x assume "listOffers d now q = Success (page, n)" and "x \<in> set page"
  then have "o_status x = ''active'' \<and> x \<in> set (offers d)" by (rule listOffers_active)
  then show "o_status x = ''active''" and "x \<in> set (offers d)" by simp_all
next
  show "listOffers d now q = listOffers d now' q" by (simp add: listOffers_def)
  show "fst (acceptOffer d now user oid amount pm) = fst (acceptOffer d now' user oid amount pm)"
    by (simp add: acceptOffer_def Let_def accept_writes_time split: option.splits)
qed

text \<open>
  The amended C7 at work: the offer completed by the accept above is refused
  afterwards, and the listing of the sample market holds its one active offer.
\<close>

theorem status_decides_acceptance_witness:
  "findOne (\<lambda>x. o_id x = 1) (offers (snd (acceptOffer small_market 1000 2 1 4 ''bank_transfer'')))
     = Some 0
   \<and> remaining (snd (acceptOffer small_market 1000 2 1 4 ''bank_transfer'')) = [(2, ''completed'')]
   \<and> fst (acceptOffer (snd (acceptOffer small_market 1000 2 1 4 ''bank_transfer''))
        2000 2 1 4 ''bank_transfer'') = Failure OfferNotActive
   \<and> listOffers (market Sell) 1000 no_filter = Success ([btc_offer Sell], 1)
   \<and> map o_status [btc_offer Sell] = [''active''] \<and> offers (market Sell) = [btc_offer Sell]"
  using status_decides_acceptance [of 1 "snd (acceptOffer small_market 1000 2 1 4 ''bank_transfer'')"
      0 2000 2 4 "''bank_transfer''" no_filter "[]" 0 2000]
    status_decides_acceptance [of 1 "market Sell" 0 1000 2 4 "''bank_transfer''" no_filter
      "[btc_offer Sell]" 1 1000]
  unfolding accept_small_sample
  by (simp add: acceptOffer_def sample_defs remaining_def listOffers_def
      offer_filter_def given_def truthy_def no_filter_def)

text \<open>
  C7 as stated fails. The sample offer expired at time 500 and still reads
  \<^verbatim>\<open>active\<close>: at time 1000 it is accepted, and it is listed.
\<close>

theorem expired_offer_accepted:
  "map o_expiresAt (offers (market Sell)) = [500]
   \<and> succeeded (fst (acceptOffer (market Sell) 1000 2 1 5000 ''bank_transfer''))
   \<and> listOffers (market Sell) 1000 no_filter = Success ([btc_offer Sell], 1)"
  unfolding accept_sell_sample
  by (simp add: succeeded_def listOffers_def offer_filter_def given_def truthy_def no_filter_def
      sample_defs)

subsection \<open>Insufficient funds\<close>

text \<open>
  C8. The offer is found, active and not the caller's own, the fiat amount is within
  the limits, the payment method is one of the offer's and the price is positive. If
  every active wallet of the escrow holder in the offer's currency has less than
  \<^verbatim>\<open>amount / price\<close> available, \<^verbatim>\<open>acceptOffer\<close> answers 400 for insufficient balance and
  the database is as it was: no wallet written, no trade created, the offer untouched.
\<close>

theorem acceptOffer_insufficient:
  assumes "findOne (\<lambda>x. o_id x = oid) (offers d) = Some k"
    and "o_status (offers d ! k) = ''active''"
    and "o_userId (offers d ! k) \<noteq> user"
    and "o_minLimit (offers d ! k) \<le> amount" and "amount \<le> o_maxLimit (offers d ! k)"
    and "paymentMethod \<in> set (o_paymentMethods (offers d ! k))"
    and "0 < o_price (offers d ! k)"
    and "\<forall>w \<in> set (wallets d).
           w_userId w = escrow_holder (offers d ! k) user
           \<and> w_cryptocurrency w = o_cryptocurrency (offers d ! k) \<and> w_isActive w
           \<longrightarrow> w_balance w < amount / o_price (offers d ! k)"
  shows "acceptOffer d now user oid amount paymentMethod = (Failure (insufficient (offers d ! k)), d)
         \<and> http_status (insufficient (offers d ! k)) = 400"
proof -
  have "findOne (funded (escrow_holder (offers d ! k) user) (o_cryptocurrency (offers d ! k))
          (amount / o_price (offers d ! k))) (wallets d) = None"
    using assms(8) by (auto simp: findOne_None_iff funded_def)
  then have "accept_writes d now user k (amount / o_price (offers d ! k)) amount paymentMethod
      = (Failure (insufficient (offers d ! k)), d)"
    by (simp add: accept_writes_def Let_def)
  with assms(1-7) show ?thesis
    by (simp add: acceptOffer_def Let_def insufficient_def)
qed

text \<open>
  C8 on the scenario of the specification: 0.05 BTC available against a lock of 0.1.
\<close>

theorem acceptOffer_insufficient_witness:
  "findOne (\<lambda>x. o_id x = 1) (offers short_market) = Some 0
   \<and> escrow_holder (offers short_market ! 0) 2 = 2
   \<and> ledger (wallets short_market) = [(1, 2, 0), (2, 1 / 20, 0)]
   \<and> 5000 / o_price (offers short_market ! 0) = 1 / 10
   \<and> acceptOffer short_market 1000 2 1 5000 ''bank_transfer''
      = (Failure InsufficientBalance, short_market)"
  using acceptOffer_insufficient [of 1 short_market 0 2 5000 "''bank_transfer''" 1000]
  by (simp add: short_market_def sample_defs escrow_holder_def insufficient_def ledger_def)

subsection \<open>Status transitions\<close>

lemma doc_unheld_result:
  assumes "t_escrowHeld t \<noteq> Some True" and "t_buyerId t = user \<or> t_sellerId t = user"
    and "b_status b \<in> set validStatuses"
  shows "\<exists>u. updateTradeStatus_doc ws t now user b = (Inr u, ws) \<and> u_status u = b_status b"
  using assms by (auto simp: updateTradeStatus_doc_def Let_def)

text \<open>
  C9, as amended. For a party of the trade, \<^verbatim>\<open>updateTradeStatus\<close> accepts every status
  of the list \<^verbatim>\<open>validStatuses\<close>, whatever the current status of the trade, and stores
  it; a status outside the list is refused and nothing changes.
\<close>

theorem updateTradeStatus_membership_only:
  assumes "findOne (\<lambda>t. t_id t = tid) (trades d) = Some k"
    and "t_buyerId (trades d ! k) = user \<or> t_sellerId (trades d ! k) = user"
  shows "(b_status b \<in> set validStatuses \<longrightarrow>
           (\<exists>t'. updateTradeStatus d now user tid b = (Success t', d\<lparr>trades := (trades d)[k := t']\<rparr>)
              \<and> t_status t' = b_status b))
       \<and> (b_status b \<notin> set validStatuses \<longrightarrow>
            updateTradeStatus d now user tid b = (Failure InvalidStatus, d))"
proof (intro conjI impI)
  assume ok: "b_status b \<in> set validStatuses"
  let ?t = "p2pTradeSchema_paths (trades d ! k)"
  have "t_escrowHeld ?t \<noteq> Some True" and "t_buyerId ?t = user \<or> t_sellerId ?t = user"
    using assms(2) by (simp_all add: p2pTradeSchema_paths_def)
  then obtain u where u: "updateTradeStatus_doc (wallets d) ?t now user b = (Inr u, wallets d)"
    and s: "u_status u = b_status b"
    using doc_unheld_result [OF _ _ ok] by blast
  show "\<exists>t'. updateTradeStatus d now user tid b = (Success t', d\<lparr>trades := (trades d)[k := t']\<rparr>)
          \<and> t_status t' = b_status b"
    using assms(1) u s
    by (simp add: updateTradeStatus_def Let_def P2PTrade_update_def p2pTradeSchema_paths_def)
next
  assume bad: "b_status b \<notin> set validStatuses"
  let ?t = "p2pTradeSchema_paths (trades d ! k)"
  have "t_buyerId ?t = user \<or> t_sellerId ?t = user"
    using assms(2) by (simp add: p2pTradeSchema_paths_def)
  with bad have "updateTradeStatus_doc (wallets d) ?t now user b = (Inl InvalidStatus, wallets d)"
    by (auto simp: updateTradeStatus_doc_def)
  with assms(1) show "updateTradeStatus d now user tid b = (Failure InvalidStatus, d)"
    by (simp add: updateTradeStatus_def)
qed

text \<open>
  The amended C9 on the completed trade: \<^verbatim>\<open>disputed\<close> is stored, \<^verbatim>\<open>refunded\<close> is
  refused.
\<close>

theorem updateTradeStatus_membership_only_witness:
  "findOne (\<lambda>t. t_id t = 1) (trades settled_market) = Some 0
   \<and> t_sellerId (trades settled_market ! 0) = 1
   \<and> ''disputed'' \<in> set validStatuses \<and> ''refunded'' \<notin> set validStatuses
   \<and> (\<exists>t'. updateTradeStatus settled_market 3000 1 1 (status_only ''disputed'')
               = (Success t', settled_market\<lparr>trades := (trades settled_market)[0 := t']\<rparr>)
            \<and> t_status t' = ''disputed'')
   \<and> updateTradeStatus settled_market 3000 1 1 (status_only ''refunded'')
       = (Failure InvalidStatus, settled_market)"
  using updateTradeStatus_membership_only [of 1 settled_market 0 1 "status_only ''disputed''" 3000]
    updateTradeStatus_membership_only [of 1 settled_market 0 1 "status_only ''refunded''" 3000]
  by (simp add: settled_market_def sample_defs validStatuses_def)

text \<open>
  C9 as stated fails. The trade is completed, a terminal state; the seller sets it back
  to \<^verbatim>\<open>pending\<close> and the update is stored.
\<close>

theorem terminal_status_left:
  "map t_status (trades settled_market) = [''completed'']
   \<and> succeeded (fst (updateTradeStatus settled_market 3000 1 1 (status_only ''pending'')))
   \<and> map t_status (trades (snd (updateTradeStatus settled_market 3000 1 1 (status_only ''pending''))))
       = [''pending'']"
  by (simp add: settled_market_def db_defs update_defs succeeded_def sample_defs)

end
